theory Spec2Isabelle
  imports Complex_Main "HOL-Library.Word" "HOL-Library.Monad_Syntax" "HOL-Library.Log_Nat"
begin

unbundle bit_operations_syntax

section \<open>Numbers and bytes\<close>

text \<open>
  The audio library works on \<^verbatim>\<open>Float32Array\<close> buffers and JavaScript numbers. The
  theory reads its functions twice. In the first sections samples and parameters are real
  numbers and the arithmetic is exact: the formulas of the program are read as they are
  written, for the byte layout, for silence and for the order of the tests of the
  four-parameter engine. In the later sections the numbers are those of the program:
  binary64 and binary32 values with their rounding, the infinities and NaN.
  A buffer is a list of samples. Bytes are 8-bit words; a \<^verbatim>\<open>DataView\<close> over an
  \<^verbatim>\<open>ArrayBuffer\<close> is a list of bytes, and a write outside the buffer is the
  \<^verbatim>\<open>RangeError\<close> the source would raise, modelled as \<open>None\<close>.
\<close>

type_synonym byte = "8 word"

definition SAMPLE_RATE :: nat where
  "SAMPLE_RATE = 48000"

section \<open>WAV encoding\<close>

text \<open>Little-endian bytes of a 16-bit and of a 32-bit word.\<close>

definition le16 :: "16 word \<Rightarrow> byte list" where
  "le16 w = [ucast w, ucast (drop_bit 8 w)]"

definition le32 :: "32 word \<Rightarrow> byte list" where
  "le32 w = [ucast w, ucast (drop_bit 8 w), ucast (drop_bit 16 w), ucast (drop_bit 24 w)]"

text \<open>Storing a run of bytes at an offset of a view that is long enough.\<close>

definition store :: "byte list \<Rightarrow> nat \<Rightarrow> byte list \<Rightarrow> byte list option" where
  "store view offset bs =
     (if offset + length bs \<le> length view
      then Some (take offset view @ bs @ drop (offset + length bs) view)
      else None)"

definition setUint8 :: "byte list \<Rightarrow> nat \<Rightarrow> nat \<Rightarrow> byte list option" where
  "setUint8 view offset v = store view offset [of_nat v]"

definition setUint16 :: "byte list \<Rightarrow> nat \<Rightarrow> nat \<Rightarrow> byte list option" where
  "setUint16 view offset v = store view offset (le16 (of_nat v))"

definition setUint32 :: "byte list \<Rightarrow> nat \<Rightarrow> nat \<Rightarrow> byte list option" where
  "setUint32 view offset v = store view offset (le32 (of_nat v))"

text \<open>
  \<^verbatim>\<open>setInt16\<close> converts its numeric argument with ToInt16: the fraction is cut off
  towards zero and the integer is taken modulo \<open>2 ^ 16\<close>.
\<close>

definition js_trunc :: "real \<Rightarrow> int" where
  "js_trunc x = (if x < 0 then \<lceil>x\<rceil> else \<lfloor>x\<rfloor>)"

definition ToInt16 :: "real \<Rightarrow> 16 word" where
  "ToInt16 x = word_of_int (js_trunc x)"

definition setInt16 :: "byte list \<Rightarrow> nat \<Rightarrow> real \<Rightarrow> byte list option" where
  "setInt16 view offset v = store view offset (le16 (ToInt16 v))"

text \<open>The local helper \<^verbatim>\<open>writeString\<close>: one \<^verbatim>\<open>setUint8\<close> per character code.\<close>

fun writeString :: "byte list \<Rightarrow> nat \<Rightarrow> string \<Rightarrow> byte list option" where
  "writeString view offset [] = Some view"
| "writeString view offset (c # cs) =
     setUint8 view offset (of_char c) \<bind> (\<lambda>view'. writeString view' (Suc offset) cs)"

text \<open>
  The body of the sample loop of \<^verbatim>\<open>float32ArrayToWavBlob\<close>: the clamp, then the
  scaling that depends on the sign.
\<close>

definition clampSample :: "real \<Rightarrow> real" where
  "clampSample x = max (- 1) (min 1 x)"

definition intSample :: "real \<Rightarrow> real" where
  "intSample x =
     (let sample = clampSample x
      in if sample < 0 then sample * 32768 else sample * 32767)"

fun writeSamples :: "byte list \<Rightarrow> nat \<Rightarrow> real list \<Rightarrow> byte list option" where
  "writeSamples view offset [] = Some view"
| "writeSamples view offset (x # xs) =
     setInt16 view offset (intSample x) \<bind> (\<lambda>view'. writeSamples view' (offset + 2) xs)"

definition float32ArrayToWavBlob :: "real list \<Rightarrow> nat \<Rightarrow> byte list option" where
  "float32ArrayToWavBlob audioData sampleRate =
     (let numChannels = 1;
          bytesPerSample = 2;
          blockAlign = numChannels * bytesPerSample;
          byteRate = sampleRate * blockAlign;
          dataSize = length audioData * bytesPerSample;
          fileSize = 36 + dataSize;
          view0 = replicate (44 + dataSize) (0 :: byte)
      in do {
        v1 \<leftarrow> writeString view0 0 ''RIFF'';
        v2 \<leftarrow> setUint32 v1 4 fileSize;
        v3 \<leftarrow> writeString v2 8 ''WAVE'';
        v4 \<leftarrow> writeString v3 12 ''fmt '';
        v5 \<leftarrow> setUint32 v4 16 16;
        v6 \<leftarrow> setUint16 v5 20 1;
        v7 \<leftarrow> setUint16 v6 22 numChannels;
        v8 \<leftarrow> setUint32 v7 24 sampleRate;
        v9 \<leftarrow> setUint32 v8 28 byteRate;
        v10 \<leftarrow> setUint16 v9 32 blockAlign;
        v11 \<leftarrow> setUint16 v10 34 16;
        v12 \<leftarrow> writeString v11 36 ''data'';
        v13 \<leftarrow> setUint32 v12 40 dataSize;
        writeSamples v13 44 audioData
      })"

text \<open>The bytes of a blob from an offset on, a given number of them.\<close>

definition slice :: "byte list \<Rightarrow> nat \<Rightarrow> nat \<Rightarrow> byte list" where
  "slice w offset n = take n (drop offset w)"

text \<open>The number that a run of bytes holds when it is read little-endian.\<close>

definition fromLE :: "byte list \<Rightarrow> nat" where
  "fromLE bs = foldr (\<lambda>b acc. unat b + 256 * acc) bs 0"

text \<open>The sample bytes of a buffer, as the loop leaves them.\<close>

definition pcm16 :: "real \<Rightarrow> 16 word" where
  "pcm16 x = ToInt16 (intSample x)"

definition sampleBytes :: "real list \<Rightarrow> byte list" where
  "sampleBytes xs = concat (map (\<lambda>x. le16 (pcm16 x)) xs)"

definition wavHeader :: "nat \<Rightarrow> nat \<Rightarrow> byte list" where
  "wavHeader n sampleRate =
     map of_char ''RIFF'' @ le32 (of_nat (36 + n * 2)) @ map of_char ''WAVE'' @
     map of_char ''fmt '' @ le32 16 @ le16 1 @ le16 1 @ le32 (of_nat sampleRate) @
     le32 (of_nat (sampleRate * 2)) @ le16 2 @ le16 16 @
     map of_char ''data'' @ le32 (of_nat (n * 2))"

section \<open>Noise reduction from a single intensity\<close>

text \<open>
  \<^verbatim>\<open>processFloat32Array\<close> in exact arithmetic. The first loop accumulates the
  largest and the summed absolute sample, starting from 0 and 0.
\<close>

fun amplitudeStats :: "real list \<Rightarrow> real \<times> real \<Rightarrow> real \<times> real" where
  "amplitudeStats [] (maxAmplitude, avgAmplitude) = (maxAmplitude, avgAmplitude)"
| "amplitudeStats (x # xs) (maxAmplitude, avgAmplitude) =
     (let abs = \<bar>x\<bar>
      in amplitudeStats xs (max maxAmplitude abs, avgAmplitude + abs))"

definition avgAmplitudeOf :: "real list \<Rightarrow> real" where
  "avgAmplitudeOf inputData = snd (amplitudeStats inputData (0, 0)) / real (length inputData)"

definition voiceThresholdOf :: "real list \<Rightarrow> real \<Rightarrow> real" where
  "voiceThresholdOf inputData intensity = avgAmplitudeOf inputData * (1.5 - intensity * 0.5)"

definition noiseThresholdOf :: "real list \<Rightarrow> real \<Rightarrow> real" where
  "noiseThresholdOf inputData intensity = avgAmplitudeOf inputData * (0.3 - intensity * 0.2)"

text \<open>The body of the second loop, for one sample.\<close>

definition reduceSample :: "real \<Rightarrow> real \<Rightarrow> real \<Rightarrow> real \<Rightarrow> real" where
  "reduceSample intensity voiceThreshold noiseThreshold sample =
     (let amplitude = \<bar>sample\<bar>
      in if amplitude > voiceThreshold then sample * 1.1
         else if amplitude > noiseThreshold then
           (let reduction = 0.5 + intensity * 0.4 in sample * (1 - reduction))
         else
           (let reduction = 0.8 + intensity * 0.19 in sample * (1 - reduction)))"

definition processFloat32Array :: "real list \<Rightarrow> real \<Rightarrow> real list" where
  "processFloat32Array inputData intensity =
     (let voiceThreshold = voiceThresholdOf inputData intensity;
          noiseThreshold = noiseThresholdOf inputData intensity
      in map (reduceSample intensity voiceThreshold noiseThreshold) inputData)"

text \<open>The mean absolute sample value, as the specification words it.\<close>

definition meanAbs :: "real list \<Rightarrow> real" where
  "meanAbs xs = (\<Sum>x\<leftarrow>xs. \<bar>x\<bar>) / real (length xs)"

section \<open>Noise reduction from four parameters\<close>

text \<open>
  \<^verbatim>\<open>processAudioWithRNNoise\<close> of the recorder component, in exact arithmetic. It
  closes over the four parameters of the component; they are a record here.
\<close>

record params =
  noiseThreshold :: real
  reductionStrength :: real
  highPassStrength :: real
  preservationThreshold :: real

text \<open>Step 1 of the loop body, the noise gate, on the sample and its amplitude.\<close>

definition gate :: "params \<Rightarrow> real \<Rightarrow> real \<Rightarrow> real" where
  "gate p amplitude sample =
     (if amplitude < noiseThreshold p then sample * reductionStrength p
      else if amplitude < preservationThreshold p then
        (let transitionRange = preservationThreshold p - noiseThreshold p;
             position = (amplitude - noiseThreshold p) / transitionRange;
             factor = reductionStrength p + position * (1 - reductionStrength p)
         in sample * factor)
      else sample)"

text \<open>Step 2, the high-pass filter: it reads the input sample before the current one.\<close>

definition highPass :: "params \<Rightarrow> real list \<Rightarrow> nat \<Rightarrow> real \<Rightarrow> real" where
  "highPass p inputData i sample =
     (if i > 0 \<and> highPassStrength p > 0 then
        (let filterCoeff = 1 - highPassStrength p
         in sample * filterCoeff - inputData ! (i - 1) * highPassStrength p)
      else sample)"

text \<open>Step 3, the compression of loud samples; \<open>amplitude\<close> is the one of step 1.\<close>

definition limiter :: "params \<Rightarrow> real \<Rightarrow> real \<Rightarrow> real" where
  "limiter p amplitude sample =
     (if amplitude > preservationThreshold p then
        (if amplitude > 0.8 then
           (let sign = (if sample < 0 then - 1 else 1);
                compressedAmp = 0.8 + (amplitude - 0.8) * 0.5
            in sign * compressedAmp)
         else sample)
      else sample)"

definition processSample :: "params \<Rightarrow> real list \<Rightarrow> nat \<Rightarrow> real" where
  "processSample p inputData i =
     (let sample = inputData ! i;
          amplitude = \<bar>sample\<bar>
      in limiter p amplitude (highPass p inputData i (gate p amplitude sample)))"

definition processAudioWithRNNoise :: "params \<Rightarrow> real list \<Rightarrow> real list" where
  "processAudioWithRNNoise p inputData =
     map (processSample p inputData) [0..<length inputData]"

text \<open>The sample after the gate and the filter, before the limiter.\<close>

definition postFilter :: "params \<Rightarrow> real list \<Rightarrow> nat \<Rightarrow> real" where
  "postFilter p inputData i = highPass p inputData i (gate p \<bar>inputData ! i\<bar> (inputData ! i))"




text \<open>
  The preset "Balanced"; a setting of the sliders with the noise threshold at its largest
  and the preservation threshold at its smallest value and the filter off; and a setting
  with a negative filter strength, which no slider gives.
\<close>

definition Balanced :: params where
  "Balanced = \<lparr>noiseThreshold = 0.005, reductionStrength = 0.3,
                highPassStrength = 0.02, preservationThreshold = 0.015\<rparr>"

definition CrossedThresholds :: params where
  "CrossedThresholds = \<lparr>noiseThreshold = 0.02, reductionStrength = 0.3,
                         highPassStrength = 0, preservationThreshold = 0.01\<rparr>"


section \<open>Binary64 rounding and the length of a resampled buffer\<close>

text \<open>
  JavaScript numbers are binary64 values. Where a rounding decides an integer result it is
  modelled: \<open>fl64\<close> rounds a real number to the nearest number with a 53-bit
  significand, ties to the even significand (the exponent range is not modelled; the values
  here are far from it). \<open>binade q\<close> is the exponent \<open>e\<close> with
  \<open>2 ^ e \<le> \<bar>q\<bar> < 2 ^ (e + 1)\<close>.
\<close>

definition binade :: "real \<Rightarrow> int" where
  "binade q =
     (let a = \<bar>q\<bar>
      in if 1 \<le> a then int (floorlog 2 (nat \<lfloor>a\<rfloor>)) - 1
         else - int (floorlog 2 (nat (\<lceil>1 / a\<rceil> - 1))))"

definition roundTiesToEven :: "real \<Rightarrow> int" where
  "roundTiesToEven q =
     (let f = \<lfloor>q\<rfloor>; r = q - of_int f
      in if r < 1 / 2 then f else if 1 / 2 < r then f + 1 else if even f then f else f + 1)"

definition fl64 :: "real \<Rightarrow> real" where
  "fl64 q =
     (if q = 0 then 0
      else (let ulp = 2 powi (binade q - 52) in of_int (roundTiesToEven (q / ulp)) * ulp))"

text \<open>
  The length that \<^verbatim>\<open>decodeAndResampleToFloat32\<close> asks the offline context for:
  \<^verbatim>\<open>Math.ceil(audioBuffer.length * (SAMPLE_RATE / audioBuffer.sampleRate))\<close>, the
  quotient rounded first, then the product.
\<close>

definition lengthInSamples :: "nat \<Rightarrow> nat \<Rightarrow> nat" where
  "lengthInSamples len rate =
     nat \<lceil>fl64 (real len * fl64 (real SAMPLE_RATE / real rate))\<rceil>"

text \<open>The length the specification asks for, in exact arithmetic.\<close>

definition specLength :: "nat \<Rightarrow> nat \<Rightarrow> nat" where
  "specLength len rate = nat \<lceil>real len * real SAMPLE_RATE / real rate\<rceil>"

section \<open>The numbers of the program\<close>

text \<open>
  A JavaScript number is a binary64 value and an element of a \<^verbatim>\<open>Float32Array\<close> is a
  binary32 value: a finite number, one of the two infinities, or NaN. In this part of the
  model every arithmetic operation rounds its exact result to binary64 (to the nearest
  value, ties to the even significand, with subnormal numbers, and to an infinity when the
  rounded magnitude reaches \<open>2 ^ 1024\<close>), a store into a \<^verbatim>\<open>Float32Array\<close> rounds to
  binary32 in the same way, and every comparison with NaN is false. The two zeros are
  one number here; a zero divisor counts as +0.
\<close>

datatype xnum = Fin real | PInf | NInf | NaN

text \<open>
  Rounding to a significand of \<open>p\<close> bits with least exponent \<open>emin\<close>, and the
  overflow to an infinity above the greatest exponent \<open>emax\<close>.
\<close>

definition roundAt :: "nat \<Rightarrow> int \<Rightarrow> real \<Rightarrow> real" where
  "roundAt p emin q =
     (if q = 0 then 0
      else (let ulp = 2 powi (max (binade q) emin - (int p - 1))
            in of_int (roundTiesToEven (q / ulp)) * ulp))"

definition toBinary :: "nat \<Rightarrow> int \<Rightarrow> int \<Rightarrow> real \<Rightarrow> xnum" where
  "toBinary p emin emax q =
     (let r = roundAt p emin q
      in if 2 powi (emax + 1) \<le> \<bar>r\<bar> then (if 0 < r then PInf else NInf) else Fin r)"

definition binary64 :: "real \<Rightarrow> xnum" where
  "binary64 q = toBinary 53 (- 1022) 1023 q"

definition binary32 :: "real \<Rightarrow> xnum" where
  "binary32 q = toBinary 24 (- 126) 127 q"

text \<open>
  A decimal literal of the source, or a decimal parameter value, is the binary64 number
  nearest to it.
\<close>

definition lit :: "real \<Rightarrow> xnum" where
  "lit q = binary64 q"

text \<open>The value that a store into a \<^verbatim>\<open>Float32Array\<close> leaves in the array.\<close>

fun toFloat32 :: "xnum \<Rightarrow> xnum" where
  "toFloat32 (Fin x) = binary32 x"
| "toFloat32 y = y"

fun xneg :: "xnum \<Rightarrow> xnum" where
  "xneg (Fin x) = Fin (- x)"
| "xneg PInf = NInf"
| "xneg NInf = PInf"
| "xneg NaN = NaN"

fun xabs :: "xnum \<Rightarrow> xnum" where
  "xabs (Fin x) = Fin \<bar>x\<bar>"
| "xabs PInf = PInf"
| "xabs NInf = PInf"
| "xabs NaN = NaN"

fun xless :: "xnum \<Rightarrow> xnum \<Rightarrow> bool" where
  "xless NaN y = False"
| "xless x NaN = False"
| "xless (Fin x) (Fin y) = (x < y)"
| "xless (Fin x) PInf = True"
| "xless (Fin x) NInf = False"
| "xless PInf y = False"
| "xless NInf NInf = False"
| "xless NInf y = True"

fun xadd :: "xnum \<Rightarrow> xnum \<Rightarrow> xnum" where
  "xadd NaN y = NaN"
| "xadd x NaN = NaN"
| "xadd (Fin x) (Fin y) = binary64 (x + y)"
| "xadd PInf NInf = NaN"
| "xadd NInf PInf = NaN"
| "xadd PInf y = PInf"
| "xadd x PInf = PInf"
| "xadd NInf y = NInf"
| "xadd x NInf = NInf"

definition xsub :: "xnum \<Rightarrow> xnum \<Rightarrow> xnum" where
  "xsub x y = xadd x (xneg y)"

fun xscale :: "real \<Rightarrow> xnum \<Rightarrow> xnum" where
  "xscale c PInf = (if c = 0 then NaN else if 0 < c then PInf else NInf)"
| "xscale c NInf = (if c = 0 then NaN else if 0 < c then NInf else PInf)"
| "xscale c NaN = NaN"
| "xscale c (Fin x) = binary64 (c * x)"

fun xmul :: "xnum \<Rightarrow> xnum \<Rightarrow> xnum" where
  "xmul (Fin x) y = xscale x y"
| "xmul x (Fin y) = xscale y x"
| "xmul NaN y = NaN"
| "xmul x NaN = NaN"
| "xmul PInf y = y"
| "xmul NInf y = xneg y"

fun xdiv :: "xnum \<Rightarrow> xnum \<Rightarrow> xnum" where
  "xdiv NaN y = NaN"
| "xdiv x NaN = NaN"
| "xdiv (Fin x) (Fin y) =
     (if y = 0 then (if x = 0 then NaN else if 0 < x then PInf else NInf)
      else binary64 (x / y))"
| "xdiv (Fin x) y = Fin 0"
| "xdiv PInf (Fin y) = (if 0 \<le> y then PInf else NInf)"
| "xdiv NInf (Fin y) = (if 0 \<le> y then NInf else PInf)"
| "xdiv x y = NaN"

text \<open>\<^verbatim>\<open>Math.max\<close> and \<^verbatim>\<open>Math.min\<close>: NaN as soon as one argument is NaN.\<close>

fun xmax :: "xnum \<Rightarrow> xnum \<Rightarrow> xnum" where
  "xmax NaN y = NaN"
| "xmax x NaN = NaN"
| "xmax x y = (if xless x y then y else x)"

fun xmin :: "xnum \<Rightarrow> xnum \<Rightarrow> xnum" where
  "xmin NaN y = NaN"
| "xmin x NaN = NaN"
| "xmin x y = (if xless y x then y else x)"

fun isFinite :: "xnum \<Rightarrow> bool" where
  "isFinite (Fin x) = True"
| "isFinite y = False"

text \<open>The guard the specification asks for: a sample that is not finite becomes zero.\<close>

fun zeroNonFinite :: "xnum \<Rightarrow> xnum" where
  "zeroNonFinite (Fin x) = Fin x"
| "zeroNonFinite y = Fin 0"

section \<open>The two engines on the numbers of the program\<close>

text \<open>
  \<^verbatim>\<open>processFloat32Array\<close>, operation by operation. The intensity is given as the decimal
  value that the caller passes.
\<close>

fun amplitudeStats_x :: "xnum list \<Rightarrow> xnum \<times> xnum \<Rightarrow> xnum \<times> xnum" where
  "amplitudeStats_x [] (maxAmplitude, avgAmplitude) = (maxAmplitude, avgAmplitude)"
| "amplitudeStats_x (x # xs) (maxAmplitude, avgAmplitude) =
     (let abs = xabs x
      in amplitudeStats_x xs (xmax maxAmplitude abs, xadd avgAmplitude abs))"


definition avgAmplitudeOf_x :: "xnum list \<Rightarrow> xnum" where
  "avgAmplitudeOf_x inputData =
     xdiv (snd (amplitudeStats_x inputData (Fin 0, Fin 0))) (Fin (real (length inputData)))"

definition voiceThresholdOf_x :: "xnum list \<Rightarrow> real \<Rightarrow> xnum" where
  "voiceThresholdOf_x inputData intensity =
     xmul (avgAmplitudeOf_x inputData) (xsub (lit 1.5) (xmul (lit intensity) (lit 0.5)))"

definition noiseThresholdOf_x :: "xnum list \<Rightarrow> real \<Rightarrow> xnum" where
  "noiseThresholdOf_x inputData intensity =
     xmul (avgAmplitudeOf_x inputData) (xsub (lit 0.3) (xmul (lit intensity) (lit 0.2)))"

definition reduceSample_x :: "real \<Rightarrow> xnum \<Rightarrow> xnum \<Rightarrow> xnum \<Rightarrow> xnum" where
  "reduceSample_x intensity voiceThreshold noiseThreshold' sample =
     (let amplitude = xabs sample
      in if xless voiceThreshold amplitude then toFloat32 (xmul sample (lit 1.1))
         else if xless noiseThreshold' amplitude then
           (let reduction = xadd (lit 0.5) (xmul (lit intensity) (lit 0.4))
            in toFloat32 (xmul sample (xsub (Fin 1) reduction)))
         else
           (let reduction = xadd (lit 0.8) (xmul (lit intensity) (lit 0.19))
            in toFloat32 (xmul sample (xsub (Fin 1) reduction))))"

definition processFloat32Array_x :: "xnum list \<Rightarrow> real \<Rightarrow> xnum list" where
  "processFloat32Array_x inputData intensity =
     (let voiceThreshold = voiceThresholdOf_x inputData intensity;
          noiseThreshold = noiseThresholdOf_x inputData intensity
      in map (reduceSample_x intensity voiceThreshold noiseThreshold) inputData)"

text \<open>
  The left-to-right sum of the absolute values, each addition rounded: the sum that the
  mean amplitude of the specification becomes in the program.
\<close>

definition sumAbs_x :: "xnum list \<Rightarrow> xnum" where
  "sumAbs_x ys = foldl (\<lambda>s y. xadd s (xabs y)) (Fin 0) ys"

text \<open>
  \<^verbatim>\<open>processAudioWithRNNoise\<close>, operation by operation. The parameters are given as the
  decimal values of the sliders.
\<close>

definition gate_x :: "params \<Rightarrow> xnum \<Rightarrow> xnum \<Rightarrow> xnum" where
  "gate_x p amplitude sample =
     (if xless amplitude (lit (noiseThreshold p)) then
        xmul sample (lit (reductionStrength p))
      else if xless amplitude (lit (preservationThreshold p)) then
        (let transitionRange = xsub (lit (preservationThreshold p)) (lit (noiseThreshold p));
             position = xdiv (xsub amplitude (lit (noiseThreshold p))) transitionRange;
             factor = xadd (lit (reductionStrength p))
                        (xmul position (xsub (Fin 1) (lit (reductionStrength p))))
         in xmul sample factor)
      else sample)"

definition highPass_x :: "params \<Rightarrow> xnum list \<Rightarrow> nat \<Rightarrow> xnum \<Rightarrow> xnum" where
  "highPass_x p inputData i sample =
     (if i > 0 \<and> xless (Fin 0) (lit (highPassStrength p)) then
        (let filterCoeff = xsub (Fin 1) (lit (highPassStrength p))
         in xsub (xmul sample filterCoeff)
              (xmul (inputData ! (i - 1)) (lit (highPassStrength p))))
      else sample)"

definition limiter_x :: "params \<Rightarrow> xnum \<Rightarrow> xnum \<Rightarrow> xnum" where
  "limiter_x p amplitude sample =
     (if xless (lit (preservationThreshold p)) amplitude then
        (if xless (lit 0.8) amplitude then
           (let sign = (if xless sample (Fin 0) then - 1 else 1);
                compressedAmp = xadd (lit 0.8) (xmul (xsub amplitude (lit 0.8)) (lit 0.5))
            in xmul (Fin sign) compressedAmp)
         else sample)
      else sample)"

definition processSample_x :: "params \<Rightarrow> xnum list \<Rightarrow> nat \<Rightarrow> xnum" where
  "processSample_x p inputData i =
     (let sample = inputData ! i;
          amplitude = xabs sample
      in toFloat32 (limiter_x p amplitude (highPass_x p inputData i (gate_x p amplitude sample))))"

definition processAudioWithRNNoise_x :: "params \<Rightarrow> xnum list \<Rightarrow> xnum list" where
  "processAudioWithRNNoise_x p inputData =
     map (processSample_x p inputData) [0..<length inputData]"

section \<open>WAV encoding of the samples of the program\<close>

text \<open>
  The sample loop of \<^verbatim>\<open>float32ArrayToWavBlob\<close> on a buffer that may hold samples that
  are not finite: the clamp is \<^verbatim>\<open>Math.max(-1, Math.min(1, x))\<close>, and ToInt16 of NaN
  and of the infinities is 0. The header is written as before.
\<close>

definition clampSample_x :: "xnum \<Rightarrow> xnum" where
  "clampSample_x x = xmax (Fin (- 1)) (xmin (Fin 1) x)"

definition intSample_x :: "xnum \<Rightarrow> xnum" where
  "intSample_x x =
     (let sample = clampSample_x x
      in if xless sample (Fin 0) then xmul sample (Fin 32768) else xmul sample (Fin 32767))"

fun ToInt16_x :: "xnum \<Rightarrow> 16 word" where
  "ToInt16_x (Fin x) = ToInt16 x"
| "ToInt16_x y = 0"




definition pcm16_x :: "xnum \<Rightarrow> 16 word" where
  "pcm16_x x = ToInt16_x (intSample_x x)"

definition sampleBytes_x :: "xnum list \<Rightarrow> byte list" where
  "sampleBytes_x xs = concat (map (\<lambda>x. le16 (pcm16_x x)) xs)"

section \<open>Decoding and reprocessing\<close>

text \<open>
  A decoded \<^verbatim>\<open>AudioBuffer\<close>: its sample rate, its length in frames and its channels.
\<close>

record AudioBuffer =
  bufferSampleRate :: nat
  bufferLength :: nat
  channels :: "xnum list list"

text \<open>
  \<^verbatim>\<open>mixDownToMono\<close> adds each channel, divided by the number of channels, into a
  zeroed \<^verbatim>\<open>Float32Array\<close>.
\<close>

definition mixDownToMono :: "AudioBuffer \<Rightarrow> xnum list" where
  "mixDownToMono buffer =
     (let len = bufferLength buffer;
          numberOfChannels = length (channels buffer)
      in fold (\<lambda>ch out.
                 map (\<lambda>i. toFloat32 (xadd (out ! i)
                                       (xdiv (ch ! i) (Fin (real numberOfChannels)))))
                   [0..<len])
           (channels buffer) (replicate len (Fin 0)))"

text \<open>
  What the browser does is a parameter: \<open>decodeAudioData\<close> decodes the bytes of a blob
  or rejects them (\<open>None\<close>), and \<open>startRendering\<close> is the rendering of an offline
  context of one channel and the given length at \<open>SAMPLE_RATE\<close>, fed with the decoded
  buffer. Both are functions of their arguments here.
\<close>

record browser =
  decodeAudioData :: "byte list \<Rightarrow> AudioBuffer option"
  startRendering :: "AudioBuffer \<Rightarrow> nat \<Rightarrow> xnum list"

text \<open>
  The two lines that \<^verbatim>\<open>processFloat32Array\<close> writes to the console, as the values
  they print (the formatting to four decimals is not modelled).
\<close>

datatype log_line =
  AudioAnalysis xnum xnum xnum xnum
  | AppliedNoiseReduction xnum


text \<open>
  The state outside the audio library that its functions touch: the lines written to
  the console, and the number of audio contexts opened and not yet closed.
\<close>

record world =
  console :: "log_line list"
  openContexts :: nat

datatype error = DecodeError | RangeError

definition decodeAndResampleToFloat32 ::
  "browser \<Rightarrow> byte list \<Rightarrow> world \<Rightarrow> (error + xnum list) \<times> world" where
  "decodeAndResampleToFloat32 br blob w =
     (let w1 = w\<lparr>openContexts := openContexts w + 1\<rparr>
      in case decodeAudioData br blob of
           None \<Rightarrow> (Inl DecodeError, w1)
         | Some audioBuffer \<Rightarrow>
             (if bufferSampleRate audioBuffer = SAMPLE_RATE then
                (let channelData =
                       (case channels audioBuffer of
                          [ch] \<Rightarrow> ch
                        | _ \<Rightarrow> mixDownToMono audioBuffer)
                 in (Inr channelData, w1\<lparr>openContexts := openContexts w1 - 1\<rparr>))
              else
                (let n = lengthInSamples (bufferLength audioBuffer)
                           (bufferSampleRate audioBuffer);
                     rendered = startRendering br audioBuffer n
                 in (Inr rendered, w1\<lparr>openContexts := openContexts w1 - 1\<rparr>))))"






section \<open>Properties of the WAV encoding\<close>

text \<open>Each write of the encoder lands in the zeroed tail that the writes before it left.\<close>

lemma length_le16 [simp]: "length (le16 w) = 2"
  by (simp add: le16_def)

lemma length_le32 [simp]: "length (le32 w) = 4"
  by (simp add: le32_def)

lemma store_tail:
  assumes "length a = offset" and "length bs \<le> k"
  shows "store (a @ replicate k 0) offset bs = Some ((a @ bs) @ replicate (k - length bs) 0)"
  using assms by (simp add: store_def)

lemma writeString_tail:
  "length a = offset \<Longrightarrow> length s \<le> k \<Longrightarrow>
   writeString (a @ replicate k 0) offset s
     = Some ((a @ map of_char s) @ replicate (k - length s) 0)"
proof (induction s arbitrary: a offset k)
  case Nil
  then show ?case by simp
next
  case (Cons c cs)
  from Cons.prems obtain k' where k: "k = Suc k'"
    by (cases k) auto
  have st: "setUint8 (a @ replicate k 0) offset (of_char c)
      = Some ((a @ [of_char c]) @ replicate k' 0)"
    using Cons.prems k store_tail [of a offset "[of_nat (of_char c)]" k]
    by (simp add: setUint8_def of_nat_of_char)
  have "writeString ((a @ [of_char c]) @ replicate k' 0) (Suc offset) cs
      = Some (((a @ [of_char c]) @ map of_char cs) @ replicate (k' - length cs) 0)"
    using Cons.prems k by (intro Cons.IH) auto
  with st k show ?case by simp
qed

lemma writeSamples_tail:
  "length a = offset \<Longrightarrow>
   writeSamples (a @ replicate (2 * length xs) 0) offset xs = Some (a @ sampleBytes xs)"
proof (induction xs arbitrary: a offset)
  case Nil
  then show ?case by (simp add: sampleBytes_def)
next
  case (Cons x xs)
  have st: "setInt16 (a @ replicate (2 * length (x # xs)) 0) offset (intSample x)
      = Some ((a @ le16 (pcm16 x)) @ replicate (2 * length xs) 0)"
    using Cons.prems
      store_tail [of a offset "le16 (ToInt16 (intSample x))" "2 * length (x # xs)"]
    by (simp add: setInt16_def pcm16_def)
  have "writeSamples ((a @ le16 (pcm16 x)) @ replicate (2 * length xs) 0) (offset + 2) xs
      = Some ((a @ le16 (pcm16 x)) @ sampleBytes xs)"
    using Cons.prems by (intro Cons.IH) simp
  with st show ?case by (simp add: sampleBytes_def)
qed

lemma setUint32_tail:
  "length a = offset \<Longrightarrow> 4 \<le> k \<Longrightarrow>
   setUint32 (a @ replicate k 0) offset v
     = Some ((a @ le32 (of_nat v)) @ replicate (k - 4) 0)"
  using store_tail [of a offset "le32 (of_nat v)" k] by (simp add: setUint32_def)

lemma setUint16_tail:
  "length a = offset \<Longrightarrow> 2 \<le> k \<Longrightarrow>
   setUint16 (a @ replicate k 0) offset v
     = Some ((a @ le16 (of_nat v)) @ replicate (k - 2) 0)"
  using store_tail [of a offset "le16 (of_nat v)" k] by (simp add: setUint16_def)

lemma length_wavHeader [simp]: "length (wavHeader n sampleRate) = 44"
  by (simp add: wavHeader_def)

lemma length_sampleBytes [simp]: "length (sampleBytes xs) = 2 * length xs"
  by (induction xs) (simp_all add: sampleBytes_def)

lemma float32ArrayToWavBlob_eq:
  "float32ArrayToWavBlob xs sampleRate = Some (wavHeader (length xs) sampleRate @ sampleBytes xs)"
proof -
  define n where "n = length xs"
  define h1 :: "byte list" where "h1 = map of_char ''RIFF''"
  define h2 where "h2 = h1 @ le32 (of_nat (36 + n * 2))"
  define h3 where "h3 = h2 @ map of_char ''WAVE''"
  define h4 where "h4 = h3 @ map of_char ''fmt ''"
  define h5 where "h5 = h4 @ le32 (of_nat 16)"
  define h6 where "h6 = h5 @ le16 (of_nat 1)"
  define h7 where "h7 = h6 @ le16 (of_nat 1)"
  define h8 where "h8 = h7 @ le32 (of_nat sampleRate)"
  define h9 where "h9 = h8 @ le32 (of_nat (sampleRate * 2))"
  define h10 where "h10 = h9 @ le16 (of_nat 2)"
  define h11 where "h11 = h10 @ le16 (of_nat 16)"
  define h12 where "h12 = h11 @ map of_char ''data''"
  define h13 where "h13 = h12 @ le32 (of_nat (n * 2))"
  have len:
    "length h1 = 4" "length h2 = 8" "length h3 = 12" "length h4 = 16" "length h5 = 20"
    "length h6 = 22" "length h7 = 24" "length h8 = 28" "length h9 = 32" "length h10 = 34"
    "length h11 = 36" "length h12 = 40" "length h13 = 44"
    by (simp_all add: h1_def h2_def h3_def h4_def h5_def h6_def h7_def h8_def h9_def
        h10_def h11_def h12_def h13_def)
  have s1: "writeString (replicate (44 + n * 2) 0) 0 ''RIFF'' = Some (h1 @ replicate (40 + n * 2) 0)"
    using writeString_tail [of "[]" 0 "''RIFF''" "44 + n * 2"] by (simp add: h1_def)
  have s2: "setUint32 (h1 @ replicate (40 + n * 2) 0) 4 (36 + n * 2)
      = Some (h2 @ replicate (36 + n * 2) 0)"
    using setUint32_tail [of h1 4 "40 + n * 2" "36 + n * 2"] len by (simp add: h2_def)
  have s3: "writeString (h2 @ replicate (36 + n * 2) 0) 8 ''WAVE''
      = Some (h3 @ replicate (32 + n * 2) 0)"
    using writeString_tail [of h2 8 "''WAVE''" "36 + n * 2"] len by (simp add: h3_def)
  have s4: "writeString (h3 @ replicate (32 + n * 2) 0) 12 ''fmt ''
      = Some (h4 @ replicate (28 + n * 2) 0)"
    using writeString_tail [of h3 12 "''fmt ''" "32 + n * 2"] len by (simp add: h4_def)
  have s5: "setUint32 (h4 @ replicate (28 + n * 2) 0) 16 16
      = Some (h5 @ replicate (24 + n * 2) 0)"
    using setUint32_tail [of h4 16 "28 + n * 2" 16] len by (simp add: h5_def)
  have s6: "setUint16 (h5 @ replicate (24 + n * 2) 0) 20 1
      = Some (h6 @ replicate (22 + n * 2) 0)"
    using setUint16_tail [of h5 20 "24 + n * 2" 1] len by (simp add: h6_def)
  have s7: "setUint16 (h6 @ replicate (22 + n * 2) 0) 22 1
      = Some (h7 @ replicate (20 + n * 2) 0)"
    using setUint16_tail [of h6 22 "22 + n * 2" 1] len by (simp add: h7_def)
  have s8: "setUint32 (h7 @ replicate (20 + n * 2) 0) 24 sampleRate
      = Some (h8 @ replicate (16 + n * 2) 0)"
    using setUint32_tail [of h7 24 "20 + n * 2" sampleRate] len by (simp add: h8_def)
  have s9: "setUint32 (h8 @ replicate (16 + n * 2) 0) 28 (sampleRate * 2)
      = Some (h9 @ replicate (12 + n * 2) 0)"
    using setUint32_tail [of h8 28 "16 + n * 2" "sampleRate * 2"] len by (simp add: h9_def)
  have s10: "setUint16 (h9 @ replicate (12 + n * 2) 0) 32 2
      = Some (h10 @ replicate (10 + n * 2) 0)"
    using setUint16_tail [of h9 32 "12 + n * 2" 2] len by (simp add: h10_def)
  have s11: "setUint16 (h10 @ replicate (10 + n * 2) 0) 34 16
      = Some (h11 @ replicate (8 + n * 2) 0)"
    using setUint16_tail [of h10 34 "10 + n * 2" 16] len by (simp add: h11_def)
  have s12: "writeString (h11 @ replicate (8 + n * 2) 0) 36 ''data''
      = Some (h12 @ replicate (4 + n * 2) 0)"
    using writeString_tail [of h11 36 "''data''" "8 + n * 2"] len by (simp add: h12_def)
  have s13: "setUint32 (h12 @ replicate (4 + n * 2) 0) 40 (n * 2)
      = Some (h13 @ replicate (n * 2) 0)"
    using setUint32_tail [of h12 40 "4 + n * 2" "n * 2"] len by (simp add: h13_def)
  have s14: "writeSamples (h13 @ replicate (n * 2) 0) 44 xs = Some (h13 @ sampleBytes xs)"
    using writeSamples_tail [of h13 44 xs] len by (simp add: n_def mult.commute)
  have hdr: "h13 = wavHeader n sampleRate"
    by (simp add: wavHeader_def h1_def h2_def h3_def h4_def h5_def h6_def h7_def h8_def
        h9_def h10_def h11_def h12_def h13_def)
  show ?thesis
    unfolding float32ArrayToWavBlob_def Let_def n_def [symmetric]
    by (simp add: s1 s2 s3 s4 s5 s6 s7 s8 s9 s10 s11 s12 s13 s14 [unfolded hdr] hdr
        del: writeString.simps One_nat_def)
qed

lemma unat_low_byte: "unat (ucast (w :: 'a::len word) :: byte) = unat w mod 256"
  by (simp add: unsigned_ucast_eq take_bit_eq_mod)

lemma unat_drop_bit_div: "unat (drop_bit k w) = unat w div 2 ^ k"
  unfolding unat_drop_bit_eq by (simp add: drop_bit_eq_div)

lemma split_byte: "(n::nat) mod 256 + 256 * (n div 256) = n"
  by simp


lemma fromLE_le32: "fromLE (le32 w) = unat w"
proof -
  define n where "n = unat w"
  define a where "a = n div 256"
  define b where "b = a div 256"
  define c where "c = b div 256"
  have "n < 2 ^ 32"
    using unsigned_less [of w, where ?'a = nat] by (simp add: n_def)
  then have "c < 256"
    by (simp add: c_def b_def a_def div_mult2_eq [symmetric])
  then have c: "c mod 256 = c"
    by simp
  have d8: "n div 2 ^ 8 = a"
    by (simp add: a_def)
  have d16: "n div 2 ^ 16 = b"
    by (simp add: b_def a_def div_mult2_eq [symmetric])
  have d24: "n div 2 ^ 24 = c"
    by (simp add: c_def b_def a_def div_mult2_eq [symmetric])
  have main: "n mod 256 + 256 * (a mod 256 + 256 * (b mod 256 + 256 * c)) = n"
    by (simp only: split_byte c_def b_def a_def)
  have "n mod 256 + 256 * (n div 2 ^ 8 mod 256
      + 256 * (n div 2 ^ 16 mod 256 + 256 * (n div 2 ^ 24 mod 256))) = n"
    unfolding d8 d16 d24 c by (rule main)
  moreover have "n mod 256 + 256 * (n div 2 ^ 8 mod 256
      + 256 * (n div 2 ^ 16 mod 256 + 256 * (n div 2 ^ 24))) = n"
    unfolding d8 d16 d24 by (rule main)
  ultimately show ?thesis
    unfolding fromLE_def le32_def n_def by (simp add: unat_low_byte unat_drop_bit_div)
qed





text \<open>
  C6. For every buffer of n samples and every sample rate, the encoder returns a byte
  sequence of exactly 44 + 2 n bytes: "RIFF" at 0, the little-endian u32 of 36 + dataSize
  at 4, "WAVE" at 8, the "fmt " subchunk (size 16, format 1, one channel, the sample rate,
  byte rate = sample rate times 2, block align 2, 16 bits per sample) at 12, the "data" tag
  at 36, the little-endian u32 of dataSize = 2 n at 40, and the 2 n sample bytes from 44 on.
  Read back little-endian, the four 32-bit fields that depend on the input hold
  fileSize, the sample rate, the byte rate and dataSize modulo 2 ^ 32.
  A buffer of 48000 samples gives exactly 96044 bytes.
\<close>

theorem wav_layout:
  "\<exists>w. float32ArrayToWavBlob xs sampleRate = Some w
     \<and> length w = 44 + 2 * length xs
     \<and> slice w 0 4 = map of_char ''RIFF''
     \<and> slice w 4 4 = le32 (of_nat (36 + length xs * 2))
     \<and> slice w 8 4 = map of_char ''WAVE''
     \<and> slice w 12 4 = map of_char ''fmt ''
     \<and> slice w 16 4 = le32 16
     \<and> slice w 20 2 = le16 1
     \<and> slice w 22 2 = le16 1
     \<and> slice w 24 4 = le32 (of_nat sampleRate)
     \<and> slice w 28 4 = le32 (of_nat (sampleRate * 2))
     \<and> slice w 32 2 = le16 2
     \<and> slice w 34 2 = le16 16
     \<and> slice w 36 4 = map of_char ''data''
     \<and> slice w 40 4 = le32 (of_nat (length xs * 2))
     \<and> drop 44 w = sampleBytes xs
     \<and> length (sampleBytes xs) = length xs * 2
     \<and> fromLE (slice w 4 4) = (36 + length xs * 2) mod 2 ^ 32
     \<and> fromLE (slice w 24 4) = sampleRate mod 2 ^ 32
     \<and> fromLE (slice w 28 4) = (sampleRate * 2) mod 2 ^ 32
     \<and> fromLE (slice w 40 4) = (length xs * 2) mod 2 ^ 32
     \<and> (length xs = 48000 \<longrightarrow> length w = 96044)"
proof -
  define w where "w = wavHeader (length xs) sampleRate @ sampleBytes xs"
  have le: "fromLE (le32 (of_nat n)) = n mod 2 ^ 32" for n
    by (simp add: fromLE_le32 unat_of_nat)
  have s4: "slice w 4 4 = le32 (of_nat (36 + length xs * 2))"
    and s24: "slice w 24 4 = le32 (of_nat sampleRate)"
    and s28: "slice w 28 4 = le32 (of_nat (sampleRate * 2))"
    and s40: "slice w 40 4 = le32 (of_nat (length xs * 2))"
    by (simp_all add: w_def slice_def wavHeader_def le16_def le32_def)
  have "float32ArrayToWavBlob xs sampleRate = Some w
     \<and> length w = 44 + 2 * length xs
     \<and> slice w 0 4 = map of_char ''RIFF''
     \<and> slice w 4 4 = le32 (of_nat (36 + length xs * 2))
     \<and> slice w 8 4 = map of_char ''WAVE''
     \<and> slice w 12 4 = map of_char ''fmt ''
     \<and> slice w 16 4 = le32 16
     \<and> slice w 20 2 = le16 1
     \<and> slice w 22 2 = le16 1
     \<and> slice w 24 4 = le32 (of_nat sampleRate)
     \<and> slice w 28 4 = le32 (of_nat (sampleRate * 2))
     \<and> slice w 32 2 = le16 2
     \<and> slice w 34 2 = le16 16
     \<and> slice w 36 4 = map of_char ''data''
     \<and> slice w 40 4 = le32 (of_nat (length xs * 2))
     \<and> drop 44 w = sampleBytes xs
     \<and> length (sampleBytes xs) = length xs * 2"
    by (simp add: w_def float32ArrayToWavBlob_eq slice_def wavHeader_def le16_def le32_def)
  moreover have "fromLE (slice w 4 4) = (36 + length xs * 2) mod 2 ^ 32"
    unfolding s4 by (rule le)
  moreover have "fromLE (slice w 24 4) = sampleRate mod 2 ^ 32"
    unfolding s24 by (rule le)
  moreover have "fromLE (slice w 28 4) = (sampleRate * 2) mod 2 ^ 32"
    unfolding s28 by (rule le)
  moreover have "fromLE (slice w 40 4) = (length xs * 2) mod 2 ^ 32"
    unfolding s40 by (rule le)
  moreover have "length xs = 48000 \<longrightarrow> length w = 96044"
    by (simp add: w_def)
  ultimately show ?thesis
    by (intro exI [of _ w]) (elim conjE, intro conjI, assumption+)
qed

theorem wav_layout_witness:
  "\<exists>w. float32ArrayToWavBlob (replicate 48000 0) 48000 = Some w \<and> length w = 96044
     \<and> slice w 0 4 = map of_char ''RIFF'' \<and> slice w 16 4 = le32 16"
proof -
  have l: "length (replicate 48000 (0::real)) = 48000"
    by (rule length_replicate)
  show ?thesis
    using wav_layout [of "replicate 48000 0" 48000] l by blast
qed



section \<open>Properties of the intensity mode in exact arithmetic\<close>

lemma length_processFloat32Array: "length (processFloat32Array xs t) = length xs"
  by (simp add: processFloat32Array_def)

section \<open>Properties of the four-parameter mode\<close>

lemma length_processAudioWithRNNoise: "length (processAudioWithRNNoise p xs) = length xs"
  by (simp add: processAudioWithRNNoise_def)

lemma processAudioWithRNNoise_nth:
  "i < length xs \<Longrightarrow>
   processAudioWithRNNoise p xs ! i = limiter p \<bar>xs ! i\<bar> (postFilter p xs i)"
  by (simp add: processAudioWithRNNoise_def processSample_def postFilter_def Let_def)

lemma gate_zero: "gate p 0 0 = 0"
  by (simp add: gate_def Let_def)

lemma limiter_zero: "limiter p 0 0 = 0"
  by (simp add: limiter_def)

lemma highPass_zero: "i < n \<Longrightarrow> highPass p (replicate n 0) i 0 = 0"
  by (simp add: highPass_def Let_def)

lemma reduceSample_zero: "reduceSample t v n 0 = 0"
  by (simp add: reduceSample_def)

lemma processFloat32Array_silence: "processFloat32Array (replicate n 0) t = replicate n 0"
  by (simp add: processFloat32Array_def reduceSample_zero)

lemma processAudioWithRNNoise_silence:
  "processAudioWithRNNoise p (replicate n 0) = replicate n 0"
proof (rule nth_equalityI)
  show "length (processAudioWithRNNoise p (replicate n 0)) = length (replicate n (0::real))"
    by (simp add: length_processAudioWithRNNoise)
next
  fix i assume "i < length (processAudioWithRNNoise p (replicate n 0))"
  then have i: "i < n"
    by (simp add: length_processAudioWithRNNoise)
  then have "postFilter p (replicate n 0) i = 0"
    by (simp add: postFilter_def gate_zero highPass_zero)
  with i show "processAudioWithRNNoise p (replicate n 0) ! i = replicate n 0 ! i"
    by (simp add: processAudioWithRNNoise_nth limiter_zero)
qed

text \<open>
  C7. In both modes and for every choice of the parameters, an all-zero buffer is mapped
  to an all-zero buffer of the same length.
\<close>

theorem silence_preserved:
  "processFloat32Array (replicate n 0) intensity = replicate n 0
   \<and> processAudioWithRNNoise p (replicate n 0) = replicate n 0
   \<and> length (processFloat32Array (replicate n 0) intensity) = n
   \<and> length (processAudioWithRNNoise p (replicate n 0)) = n"
  by (simp add: processFloat32Array_silence processAudioWithRNNoise_silence)

theorem silence_preserved_witness:
  "processFloat32Array (replicate 3 0) 0.5 = [0, 0, 0]
   \<and> processAudioWithRNNoise Balanced (replicate 3 0) = [0, 0, 0]"
proof -
  have r: "replicate 3 (0::real) = [0, 0, 0]"
    by (simp add: numeral_3_eq_3)
  show ?thesis
    using silence_preserved [of 3 "0.5" Balanced] unfolding r by (intro conjI) simp_all
qed

text \<open>
  C10, as the code has it. With highPassStrength = 0, an input sample whose amplitude is
  at least noiseThreshold and at least preservationThreshold, and at most 0.8, is passed
  through unchanged, whatever reductionStrength and the neighbouring samples are. (The
  gate tests the noise threshold first: below it the sample is attenuated even when it
  is above the preservation threshold.)
\<close>

theorem passthrough_band:
  assumes "highPassStrength p = 0" and "i < length xs"
    and "noiseThreshold p \<le> \<bar>xs ! i\<bar>" and "preservationThreshold p \<le> \<bar>xs ! i\<bar>"
    and "\<bar>xs ! i\<bar> \<le> 0.8"
  shows "processAudioWithRNNoise p xs ! i = xs ! i"
proof -
  have g: "gate p \<bar>xs ! i\<bar> (xs ! i) = xs ! i"
    using assms by (simp add: gate_def)
  have "postFilter p xs i = xs ! i"
    using assms by (simp add: postFilter_def highPass_def g)
  moreover have "limiter p \<bar>xs ! i\<bar> y = y" for y
    using assms by (simp add: limiter_def)
  ultimately show ?thesis
    using assms by (simp add: processAudioWithRNNoise_nth)
qed

theorem passthrough_band_witness:
  "processAudioWithRNNoise CrossedThresholds [0.015, 0.5, - 0.03] ! 1 = 0.5"
  using passthrough_band [of CrossedThresholds 1 "[0.015, 0.5, - 0.03]"]
  by (simp add: CrossedThresholds_def)

theorem passthrough_band_counterexample:
  "highPassStrength CrossedThresholds = 0
   \<and> preservationThreshold CrossedThresholds \<le> \<bar>[0.015 :: real] ! 0\<bar>
   \<and> \<bar>[0.015 :: real] ! 0\<bar> \<le> 0.8
   \<and> processAudioWithRNNoise CrossedThresholds [0.015] ! 0 = 0.0045
   \<and> processAudioWithRNNoise CrossedThresholds [0.015] ! 0 \<noteq> [0.015] ! 0"
  by (simp add: CrossedThresholds_def processAudioWithRNNoise_def processSample_def
      gate_def highPass_def limiter_def Let_def)













section \<open>Properties of the rounding and of the resampled length\<close>

text \<open>
  The rounding model: \<open>binade\<close> is the exponent of the binade of its argument, and
  \<open>fl64\<close> returns a multiple of the unit in the last place that is nearest to its
  argument, the even one at a tie, so that the error is at most half a unit.
\<close>

lemma roundTiesToEven_cases:
  obtains "x - of_int \<lfloor>x\<rfloor> < 1 / 2" and "roundTiesToEven x = \<lfloor>x\<rfloor>"
  | "1 / 2 < x - of_int \<lfloor>x\<rfloor>" and "roundTiesToEven x = \<lfloor>x\<rfloor> + 1"
  | "x - of_int \<lfloor>x\<rfloor> = 1 / 2" and "even \<lfloor>x\<rfloor>" and "roundTiesToEven x = \<lfloor>x\<rfloor>"
  | "x - of_int \<lfloor>x\<rfloor> = 1 / 2" and "odd \<lfloor>x\<rfloor>" and "roundTiesToEven x = \<lfloor>x\<rfloor> + 1"
proof -
  consider "x - of_int \<lfloor>x\<rfloor> < 1 / 2" | "1 / 2 < x - of_int \<lfloor>x\<rfloor>"
    | "x - of_int \<lfloor>x\<rfloor> = 1 / 2"
    by linarith
  then show ?thesis
  proof cases
    case 1
    then have "roundTiesToEven x = \<lfloor>x\<rfloor>"
      by (simp add: roundTiesToEven_def Let_def)
    with 1 that show ?thesis
      by blast
  next
    case 2
    then have "roundTiesToEven x = \<lfloor>x\<rfloor> + 1"
      by (simp add: roundTiesToEven_def Let_def)
    with 2 that show ?thesis
      by blast
  next
    case 3
    then have "roundTiesToEven x = (if even \<lfloor>x\<rfloor> then \<lfloor>x\<rfloor> else \<lfloor>x\<rfloor> + 1)"
      by (simp add: roundTiesToEven_def Let_def)
    with 3 that show ?thesis
      by (cases "even \<lfloor>x\<rfloor>") simp_all
  qed
qed

lemma roundTiesToEven_nearest: "\<bar>of_int (roundTiesToEven x) - x\<bar> \<le> 1 / 2"
proof -
  have f: "of_int \<lfloor>x\<rfloor> \<le> x" "x < of_int \<lfloor>x\<rfloor> + 1"
    by linarith+
  show ?thesis
  proof (cases x rule: roundTiesToEven_cases)
    case 1
    with f show ?thesis by simp
  next
    case 2
    with f show ?thesis by simp
  next
    case 3
    with f show ?thesis by simp
  next
    case 4
    with f show ?thesis by simp
  qed
qed

lemma roundTiesToEven_tie:
  assumes "\<bar>of_int (roundTiesToEven x) - x\<bar> = 1 / 2"
  shows "even (roundTiesToEven x)"
proof (cases x rule: roundTiesToEven_cases)
  case 1
  with assms show ?thesis by simp
next
  case 2
  with assms show ?thesis by simp
next
  case 3
  then show ?thesis by simp
next
  case 4
  then show ?thesis by simp
qed

lemma floorlog_pos: "0 < n \<Longrightarrow> 0 < floorlog 2 n"
  by (simp add: floorlog_def)

lemma binade_bounds:
  assumes "q \<noteq> 0"
  shows "2 powi binade q \<le> \<bar>q\<bar> \<and> \<bar>q\<bar> < 2 powi (binade q + 1)"
proof -
  define a where "a = \<bar>q\<bar>"
  have a0: "0 < a"
    using assms by (simp add: a_def)
  show ?thesis
  proof (cases "1 \<le> a")
    case True
    define n where "n = nat \<lfloor>a\<rfloor>"
    have fl: "1 \<le> \<lfloor>a\<rfloor>"
      using True by simp
    then have n0: "0 < n"
      by (simp add: n_def)
    have rn: "real n = of_int \<lfloor>a\<rfloor>"
      using fl by (simp add: n_def)
    define k where "k = floorlog 2 n - 1"
    have fk: "floorlog 2 n = Suc k"
      using floorlog_pos [OF n0] by (simp add: k_def)
    have b: "binade q = int k"
      using True by (simp add: binade_def Let_def a_def [symmetric] n_def [symmetric] fk)
    from floorlog_bounds [of n 2] n0 have lo: "2 ^ k \<le> n" and hi: "n < 2 ^ Suc k"
      by (simp_all add: fk)
    have "(2::real) ^ k \<le> real n"
      using lo of_nat_le_iff [of "2 ^ k" n, where ?'a = real] by simp
    also have "real n \<le> a"
      by (simp add: rn)
    finally have lower: "2 ^ k \<le> a" .
    from hi have "n + 1 \<le> 2 ^ Suc k"
      by simp
    then have "real (n + 1) \<le> 2 ^ Suc k"
      using of_nat_le_iff [of "n + 1" "2 ^ Suc k", where ?'a = real] by simp
    moreover have "a < real n + 1"
      unfolding rn by linarith
    ultimately have upper: "a < 2 ^ Suc k"
      by simp
    have "int k + 1 = int (Suc k)"
      by simp
    then have "2 powi (int k + 1) = (2::real) ^ Suc k"
      by (simp only: power_int_of_nat)
    with lower upper show ?thesis
      by (simp add: b a_def [symmetric])
  next
    case False
    define m where "m = nat (\<lceil>1 / a\<rceil> - 1)"
    have inv: "1 < 1 / a"
      using False a0 by simp
    then have c2: "2 \<le> \<lceil>1 / a\<rceil>"
      by (simp add: le_ceiling_iff)
    then have m0: "0 < m"
      by (simp add: m_def)
    have "0 \<le> \<lceil>1 / a\<rceil> - 1"
      using c2 by linarith
    then have "int m = \<lceil>1 / a\<rceil> - 1"
      unfolding m_def by (rule nat_0_le)
    then have rm: "real m = of_int \<lceil>1 / a\<rceil> - 1"
      by (metis of_int_1 of_int_diff of_int_of_nat_eq)
    define k where "k = floorlog 2 m - 1"
    have fk: "floorlog 2 m = Suc k"
      using floorlog_pos [OF m0] by (simp add: k_def)
    have b: "binade q = - int (Suc k)"
      using False by (simp add: binade_def Let_def a_def [symmetric] m_def [symmetric] fk)
    from floorlog_bounds [of m 2] m0 have lo: "2 ^ k \<le> m" and hi: "m < 2 ^ Suc k"
      by (simp_all add: fk)
    have lo': "(2::real) ^ k \<le> real m"
      using lo of_nat_le_iff [of "2 ^ k" m, where ?'a = real] by simp
    from hi have "m + 1 \<le> 2 ^ Suc k"
      by simp
    then have hi': "real m + 1 \<le> 2 ^ Suc k"
      using of_nat_le_iff [of "m + 1" "2 ^ Suc k", where ?'a = real] by simp
    have m1: "real m < 1 / a" and m2: "1 / a \<le> real m + 1"
      unfolding rm by linarith+
    have "1 / a \<le> 2 ^ Suc k"
      using m2 hi' by linarith
    then have lower: "1 / 2 ^ Suc k \<le> a"
      using a0 by (simp add: field_simps)
    have "(2::real) ^ k < 1 / a"
      using lo' m1 by linarith
    then have upper: "a < 1 / 2 ^ k"
      using a0 by (simp add: field_simps)
    have p1: "2 powi (- int (Suc k)) = 1 / (2::real) ^ Suc k"
      by (simp only: power_int_minus_divide power_int_of_nat)
    have p2: "2 powi (- int (Suc k) + 1) = 1 / (2::real) ^ k"
    proof -
      have "- int (Suc k) + 1 = - int k"
        by simp
      then show ?thesis
        by (simp only: power_int_minus_divide power_int_of_nat)
    qed
    show ?thesis
      unfolding b p1 p2 a_def [symmetric] using lower upper by simp
  qed
qed

lemma fl64_error:
  assumes "q \<noteq> 0"
  shows "\<bar>fl64 q - q\<bar> \<le> 2 powi (binade q - 53)"
proof -
  define u :: real where "u = 2 powi (binade q - 52)"
  have u0: "0 < u"
    by (simp add: u_def)
  define R where "R = roundTiesToEven (q / u)"
  have "(of_int R - q / u) * u = of_int R * u - q"
    using u0 by (simp add: field_simps)
  then have "\<bar>of_int R * u - q\<bar> = \<bar>of_int R - q / u\<bar> * u"
    using u0 by (metis abs_mult abs_of_pos)
  moreover have "fl64 q = of_int R * u"
    using assms by (simp add: fl64_def Let_def u_def R_def)
  ultimately have "\<bar>fl64 q - q\<bar> = \<bar>of_int (roundTiesToEven (q / u)) - q / u\<bar> * u"
    by (simp add: R_def)
  also have "\<dots> \<le> 1 / 2 * u"
    using roundTiesToEven_nearest [of "q / u"] u0 by (intro mult_right_mono) simp_all
  also have "1 / 2 * u = 2 powi (binade q - 53)"
  proof -
    have e: "(binade q - 53) + 1 = binade q - 52"
      by simp
    have "2 powi ((binade q - 53) + 1) = 2 powi (binade q - 53) * (2::real)"
      by (rule power_int_add_1) simp
    then have "u = 2 powi (binade q - 53) * 2"
      unfolding u_def e .
    then show ?thesis
      by simp
  qed
  finally show ?thesis .
qed


text \<open>
  The rounding to a given precision and least exponent agrees with \<open>fl64\<close> on the
  normal range of binary64, and its error is at most half a unit in the last place.
\<close>

lemma roundAt_fl64: "- 1022 \<le> binade q \<Longrightarrow> roundAt 53 (- 1022) q = fl64 q"
  by (simp add: roundAt_def fl64_def max_def)

lemma roundAt_error:
  assumes "q \<noteq> 0"
  shows "\<bar>roundAt p emin q - q\<bar> \<le> 2 powi (max (binade q) emin - int p)"
proof -
  define e where "e = max (binade q) emin - int p"
  define u :: real where "u = 2 powi (e + 1)"
  have u0: "0 < u"
    by (simp add: u_def)
  have ue: "max (binade q) emin - (int p - 1) = e + 1"
    by (simp add: e_def)
  define R where "R = roundTiesToEven (q / u)"
  have "(of_int R - q / u) * u = of_int R * u - q"
    using u0 by (simp add: field_simps)
  then have "\<bar>of_int R * u - q\<bar> = \<bar>of_int R - q / u\<bar> * u"
    using u0 by (metis abs_mult abs_of_pos)
  moreover have "roundAt p emin q = of_int R * u"
    using assms by (simp add: roundAt_def Let_def ue u_def R_def)
  ultimately have "\<bar>roundAt p emin q - q\<bar> = \<bar>of_int R - q / u\<bar> * u"
    by simp
  also have "\<dots> \<le> 1 / 2 * u"
    unfolding R_def using roundTiesToEven_nearest [of "q / u"] u0
    by (intro mult_right_mono) simp_all
  also have "1 / 2 * u = 2 powi e"
  proof -
    have "2 powi (e + 1) = 2 powi e * (2::real)"
      by (rule power_int_add_1) simp
    then show ?thesis
      by (simp add: u_def)
  qed
  finally show ?thesis
    by (simp add: e_def)
qed

lemma binary64_zero: "binary64 0 = Fin 0"
  by (simp add: binary64_def toBinary_def roundAt_def)

lemma binary32_zero: "binary32 0 = Fin 0"
  by (simp add: binary32_def toBinary_def roundAt_def)

lemma binary64_cases:
  "binary64 q = Fin (roundAt 53 (- 1022) q) \<or> binary64 q = PInf \<or> binary64 q = NInf"
  by (simp add: binary64_def toBinary_def Let_def)

lemma binade_ratio: "binade (160 / 147) = 0"
  by (simp add: binade_def Let_def compute_floorlog)

lemma fl64_ratio: "fl64 (160 / 147) = 4901877145437275 / 2 ^ 52"
  by (simp add: fl64_def binade_ratio roundTiesToEven_def Let_def power_int_minus)

lemma fl64_tenth: "fl64 (1 / 10) = 3602879701896397 / 2 ^ 55"
  by (simp add: fl64_def binade_def roundTiesToEven_def Let_def power_int_minus
      compute_floorlog)

lemma fl64_one: "fl64 1 = 1"
  by (simp add: fl64_def binade_def roundTiesToEven_def Let_def power_int_minus
      compute_floorlog)

lemma lengthInSamples_one_second: "lengthInSamples 44100 44100 = 48001"
  by (simp add: lengthInSamples_def SAMPLE_RATE_def fl64_ratio)
    (simp add: fl64_def binade_def roundTiesToEven_def Let_def power_int_minus
      compute_floorlog)

lemma lengthInSamples_hundred: "lengthInSamples 100 44100 = 109"
  by (simp add: lengthInSamples_def SAMPLE_RATE_def fl64_ratio)
    (simp add: fl64_def binade_def roundTiesToEven_def Let_def power_int_minus
      compute_floorlog)

lemma specLength_one_second: "specLength 44100 44100 = 48000"
  by (simp add: specLength_def SAMPLE_RATE_def)

lemma specLength_hundred: "specLength 100 44100 = 109"
  by (simp add: specLength_def SAMPLE_RATE_def)

lemma decodeAndResampleToFloat32_resampled:
  "decodeAudioData br blob = Some buf \<Longrightarrow> bufferSampleRate buf \<noteq> SAMPLE_RATE \<Longrightarrow>
   fst (decodeAndResampleToFloat32 br blob w)
     = Inr (startRendering br buf (lengthInSamples (bufferLength buf) (bufferSampleRate buf)))"
  by (simp add: decodeAndResampleToFloat32_def Let_def)

text \<open>
  C8. The specified length of a resampled buffer is
  ceil(originalLength * 48000 / nativeRate). The code rounds the quotient
  48000 / nativeRate to a binary64 number before it multiplies: for 100 samples at
  44100 Hz it asks for 109 samples, the specified length, but for 44100 samples at
  44100 Hz it asks for 48001 samples, where the specified length is 48000.
\<close>

theorem resample_length_off_by_one:
  "lengthInSamples 100 44100 = 109 \<and> specLength 100 44100 = 109
   \<and> lengthInSamples 44100 44100 = 48001 \<and> specLength 44100 44100 = 48000"
  by (intro conjI)
    (rule lengthInSamples_hundred specLength_hundred lengthInSamples_one_second
      specLength_one_second)+

section \<open>Properties of reprocessing\<close>



lemma length_sampleBytes_x [simp]: "length (sampleBytes_x xs) = 2 * length xs"
  by (induction xs) (simp_all add: sampleBytes_x_def)



lemmas round_eval = binary64_def binary32_def toBinary_def roundAt_def binade_def
  roundTiesToEven_def Let_def power_int_minus compute_floorlog lit_def

lemmas intensity_eval = processFloat32Array_x_def voiceThresholdOf_x_def
  noiseThresholdOf_x_def avgAmplitudeOf_x_def reduceSample_x_def xsub_def

lemmas explicit_eval = processSample_x_def gate_x_def highPass_x_def limiter_x_def xsub_def

lemma length_processFloat32Array_x: "length (processFloat32Array_x ys t) = length ys"
  by (simp add: processFloat32Array_x_def Let_def)

lemma close_after_open: "(w\<lparr>openContexts := openContexts w + 1\<rparr>)
    \<lparr>openContexts := openContexts (w\<lparr>openContexts := openContexts w + 1\<rparr>) - 1\<rparr> = w"
  by simp









section \<open>Properties of the engines on the numbers of the program\<close>

lemma xless_NaN_right [simp]: "xless x NaN = False"
  by (cases x) simp_all

lemma xadd_NaN_right [simp]: "xadd x NaN = NaN"
  by (cases x) simp_all

lemma xmul_NaN_left [simp]: "xmul NaN y = NaN"
  by (cases y) simp_all

lemma xmul_NaN_right [simp]: "xmul x NaN = NaN"
  by (cases x) simp_all

lemma xsub_NaN_left [simp]: "xsub NaN y = NaN"
  by (simp add: xsub_def)

lemma amplitudeStats_x_snd:
  "snd (amplitudeStats_x ys (m, s)) = foldl (\<lambda>s y. xadd s (xabs y)) s ys"
  by (induction ys arbitrary: m s) (simp_all add: Let_def)

lemma avgAmplitudeOf_x_sumAbs:
  "avgAmplitudeOf_x ys = xdiv (sumAbs_x ys) (Fin (real (length ys)))"
  by (simp add: avgAmplitudeOf_x_def sumAbs_x_def amplitudeStats_x_snd)

lemma foldl_from_NaN: "foldl (\<lambda>s y. xadd s (xabs y)) NaN ys = NaN"
  by (induction ys) simp_all

lemma foldl_through_NaN:
  "NaN \<in> set ys \<Longrightarrow> foldl (\<lambda>s y. xadd s (xabs y)) s ys = NaN"
  by (induction ys arbitrary: s) (auto simp: foldl_from_NaN)

lemma avgAmplitudeOf_x_NaN: "NaN \<in> set ys \<Longrightarrow> avgAmplitudeOf_x ys = NaN"
  by (simp add: avgAmplitudeOf_x_sumAbs sumAbs_x_def foldl_through_NaN)

lemma processFloat32Array_x_nth:
  "i < length ys \<Longrightarrow>
   processFloat32Array_x ys t ! i
     = reduceSample_x t (voiceThresholdOf_x ys t) (noiseThresholdOf_x ys t) (ys ! i)"
  by (simp add: processFloat32Array_x_def)

lemma reduceSample_x_NaN: "reduceSample_x t v n NaN = NaN"
  by (simp add: reduceSample_x_def)

lemma reduceSample_x_NaN_thresholds:
  "reduceSample_x t NaN NaN y
     = toFloat32 (xmul y (xsub (Fin 1) (xadd (lit 0.8) (xmul (lit t) (lit 0.19)))))"
  by (simp add: reduceSample_x_def)

lemma length_processAudioWithRNNoise_x: "length (processAudioWithRNNoise_x p ys) = length ys"
  by (simp add: processAudioWithRNNoise_x_def)

lemma processSample_x_NaN: "ys ! i = NaN \<Longrightarrow> processSample_x p ys i = NaN"
  by (simp add: processSample_x_def gate_x_def highPass_x_def limiter_x_def Let_def)

lemma xsub_NaN_right [simp]: "xsub x NaN = NaN"
  by (simp add: xsub_def)

lemma processSample_x_after_NaN:
  "0 < i \<Longrightarrow> ys ! (i - 1) = NaN \<Longrightarrow> xless (Fin 0) (lit (highPassStrength p)) \<Longrightarrow>
   processSample_x p ys i = toFloat32 (limiter_x p (xabs (ys ! i)) NaN)"
  by (simp add: processSample_x_def highPass_x_def Let_def)

lemma processAudioWithRNNoise_x_NaN:
  "i < length ys \<Longrightarrow> ys ! i = NaN \<Longrightarrow> processAudioWithRNNoise_x p ys ! i = NaN"
  by (simp add: processAudioWithRNNoise_x_def processSample_x_NaN)

text \<open>
  Some evaluations: a loud, a transitional and a negative loud sample under the preset;
  a sample of the largest binary32 magnitude, whose boosted value overflows when it is
  stored; an infinite sample at an intensity for which 0.3 - intensity * 0.2 is not zero
  in binary64.
\<close>

lemma explicit_example:
  "processAudioWithRNNoise_x Balanced [Fin 0.875, Fin 0.0078125, Fin (- 0.9375)]
     = [Fin (7025459 / 2 ^ 23), Fin (- 7352877 / 2 ^ 29), Fin (- 7287603 / 2 ^ 23)]"
proof -
  have u: "[0..<length [Fin 0.875, Fin 0.0078125, Fin (- 0.9375)]] = [0, 1, 2]"
    by (simp add: upt_rec)
  show ?thesis
    unfolding processAudioWithRNNoise_x_def u
    by (simp add: explicit_eval Balanced_def round_eval split del: if_split)
qed

lemma overflow_example:
  "processFloat32Array_x [Fin (2 ^ 128 - 2 ^ 104), Fin 0, Fin 0] 0.5 = [PInf, Fin 0, Fin 0]"
  by (simp add: intensity_eval round_eval split del: if_split)

lemma infinity_example:
  "processFloat32Array_x [PInf, Fin 0.5] 1.5 = [NInf, Fin (- 13421773 / 2 ^ 28)]"
  by (simp add: intensity_eval round_eval split del: if_split)

text \<open>
  C1, as the code has it. In the intensity mode, for every buffer and intensity,
  avgAmplitude is the sum of the absolute sample values divided by the length,
  voiceThreshold = avgAmplitude * (1.5 - intensity * 0.5) and
  noiseThreshold = avgAmplitude * (0.3 - intensity * 0.2), every operation rounded to
  binary64. A sample of amplitude a is multiplied by 1.1 when a > voiceThreshold;
  otherwise by 1 - (0.5 + intensity * 0.4) when a > noiseThreshold; otherwise by
  1 - (0.8 + intensity * 0.19); again every operation is rounded to binary64, and the
  product is rounded to binary32 when it is stored. With avgAmplitude the binary64 number
  0.1 and intensity 0.5, voiceThreshold is 0.125, noiseThreshold is the binary64 number
  0.02, and the three factors are the binary64 numbers 1.1, 0.30000000000000004 and
  0.10499999999999998.
\<close>

theorem intensity_mode_rounded:
  "length (processFloat32Array_x ys t) = length ys
   \<and> avgAmplitudeOf_x ys = xdiv (sumAbs_x ys) (Fin (real (length ys)))
   \<and> voiceThresholdOf_x ys t
       = xmul (avgAmplitudeOf_x ys) (xsub (lit 1.5) (xmul (lit t) (lit 0.5)))
   \<and> noiseThresholdOf_x ys t
       = xmul (avgAmplitudeOf_x ys) (xsub (lit 0.3) (xmul (lit t) (lit 0.2)))
   \<and> (\<forall>i<length ys.
         processFloat32Array_x ys t ! i =
           (if xless (voiceThresholdOf_x ys t) (xabs (ys ! i)) then
              toFloat32 (xmul (ys ! i) (lit 1.1))
            else if xless (noiseThresholdOf_x ys t) (xabs (ys ! i)) then
              toFloat32 (xmul (ys ! i) (xsub (Fin 1) (xadd (lit 0.5) (xmul (lit t) (lit 0.4)))))
            else
              toFloat32
                (xmul (ys ! i) (xsub (Fin 1) (xadd (lit 0.8) (xmul (lit t) (lit 0.19)))))))
   \<and> (avgAmplitudeOf_x ys = lit 0.1 \<longrightarrow>
         voiceThresholdOf_x ys 0.5 = Fin 0.125 \<and> noiseThresholdOf_x ys 0.5 = lit 0.02)
   \<and> lit 1.1 = Fin (2476979795053773 / 2 ^ 51)
   \<and> xsub (Fin 1) (xadd (lit 0.5) (xmul (lit 0.5) (lit 0.4)))
       = Fin (1351079888211149 / 2 ^ 52)
   \<and> xsub (Fin 1) (xadd (lit 0.8) (xmul (lit 0.5) (lit 0.19)))
       = Fin (236438980436951 / 2 ^ 51)"
proof (intro conjI allI impI)
  show "length (processFloat32Array_x ys t) = length ys"
    by (rule length_processFloat32Array_x)
  show "avgAmplitudeOf_x ys = xdiv (sumAbs_x ys) (Fin (real (length ys)))"
    by (rule avgAmplitudeOf_x_sumAbs)
  show "voiceThresholdOf_x ys t
      = xmul (avgAmplitudeOf_x ys) (xsub (lit 1.5) (xmul (lit t) (lit 0.5)))"
    by (simp add: voiceThresholdOf_x_def)
  show "noiseThresholdOf_x ys t
      = xmul (avgAmplitudeOf_x ys) (xsub (lit 0.3) (xmul (lit t) (lit 0.2)))"
    by (simp add: noiseThresholdOf_x_def)
  show "lit 1.1 = Fin (2476979795053773 / 2 ^ 51)"
    by (simp add: round_eval)
  show "xsub (Fin 1) (xadd (lit 0.5) (xmul (lit 0.5) (lit 0.4)))
      = Fin (1351079888211149 / 2 ^ 52)"
    by (simp add: xsub_def round_eval)
  show "xsub (Fin 1) (xadd (lit 0.8) (xmul (lit 0.5) (lit 0.19)))
      = Fin (236438980436951 / 2 ^ 51)"
    by (simp add: xsub_def round_eval)
next
  fix i assume "i < length ys"
  then show "processFloat32Array_x ys t ! i =
      (if xless (voiceThresholdOf_x ys t) (xabs (ys ! i)) then
         toFloat32 (xmul (ys ! i) (lit 1.1))
       else if xless (noiseThresholdOf_x ys t) (xabs (ys ! i)) then
         toFloat32 (xmul (ys ! i) (xsub (Fin 1) (xadd (lit 0.5) (xmul (lit t) (lit 0.4)))))
       else
         toFloat32 (xmul (ys ! i) (xsub (Fin 1) (xadd (lit 0.8) (xmul (lit t) (lit 0.19))))))"
    by (simp add: processFloat32Array_x_nth reduceSample_x_def Let_def)
next
  assume a: "avgAmplitudeOf_x ys = lit 0.1"
  show "voiceThresholdOf_x ys 0.5 = Fin 0.125"
    unfolding voiceThresholdOf_x_def a by (simp add: xsub_def round_eval)
  show "noiseThresholdOf_x ys 0.5 = lit 0.02"
    unfolding noiseThresholdOf_x_def a by (simp add: xsub_def round_eval)
qed

lemma tenth_example:
  "avgAmplitudeOf_x
     [Fin 0.5, Fin 0.25, Fin 0.125, Fin 0.0625, Fin 0.046875, Fin 0.015625,
      Fin 0, Fin 0, Fin 0, Fin 0] = lit 0.1"
  by (simp add: avgAmplitudeOf_x_def round_eval)

theorem intensity_mode_rounded_witness:
  "voiceThresholdOf_x
     [Fin 0.5, Fin 0.25, Fin 0.125, Fin 0.0625, Fin 0.046875, Fin 0.015625,
      Fin 0, Fin 0, Fin 0, Fin 0] 0.5 = Fin 0.125
   \<and> noiseThresholdOf_x
     [Fin 0.5, Fin 0.25, Fin 0.125, Fin 0.0625, Fin 0.046875, Fin 0.015625,
      Fin 0, Fin 0, Fin 0, Fin 0] 0.5 = lit 0.02
   \<and> processFloat32Array_x
     [Fin 0.5, Fin 0.25, Fin 0.125, Fin 0.0625, Fin 0.046875, Fin 0.015625,
      Fin 0, Fin 0, Fin 0, Fin 0] 0.5 ! 3
       = toFloat32 (xmul (Fin 0.0625)
           (xsub (Fin 1) (xadd (lit 0.5) (xmul (lit 0.5) (lit 0.4)))))
   \<and> toFloat32 (xmul (Fin 0.0625)
           (xsub (Fin 1) (xadd (lit 0.5) (xmul (lit 0.5) (lit 0.4)))))
       = Fin (5033165 / 2 ^ 28)
   \<and> processFloat32Array_x
     [Fin 0.5, Fin 0.25, Fin 0.125, Fin 0.0625, Fin 0.046875, Fin 0.015625,
      Fin 0, Fin 0, Fin 0, Fin 0] 0.5
       = [Fin (9227469 / 2 ^ 24), Fin (9227469 / 2 ^ 25), Fin (5033165 / 2 ^ 27),
          Fin (5033165 / 2 ^ 28), Fin (7549747 / 2 ^ 29), Fin (14092861 / 2 ^ 33),
          Fin 0, Fin 0, Fin 0, Fin 0]"
proof -
  let ?ys = "[Fin 0.5, Fin 0.25, Fin 0.125, Fin 0.0625, Fin 0.046875, Fin 0.015625,
      Fin 0, Fin 0, Fin 0, Fin 0]"
  note t = intensity_mode_rounded [of ?ys "0.5"]
  note th = t [THEN conjunct2, THEN conjunct2, THEN conjunct2, THEN conjunct2, THEN conjunct2,
      THEN conjunct1, THEN mp, OF tenth_example]
  note v = th [THEN conjunct1]
  note n = th [THEN conjunct2]
  have l: "(3::nat) < length ?ys"
    by simp
  note o = t [THEN conjunct2, THEN conjunct2, THEN conjunct2, THEN conjunct2, THEN conjunct1,
      rule_format, OF l]
  have x: "?ys ! 3 = Fin 0.0625"
    by simp
  have c1: "\<not> xless (Fin 0.125) (xabs (Fin 0.0625))"
    by simp
  have c2: "xless (lit 0.02) (xabs (Fin 0.0625))"
    by (simp add: round_eval)
  have "processFloat32Array_x ?ys 0.5 ! 3
      = toFloat32 (xmul (Fin 0.0625)
          (xsub (Fin 1) (xadd (lit 0.5) (xmul (lit 0.5) (lit 0.4)))))"
    using o c1 c2 unfolding x v n by simp
  moreover have "toFloat32 (xmul (Fin 0.0625)
      (xsub (Fin 1) (xadd (lit 0.5) (xmul (lit 0.5) (lit 0.4))))) = Fin (5033165 / 2 ^ 28)"
    by (simp add: xsub_def round_eval)
  moreover have "processFloat32Array_x ?ys 0.5
      = [Fin (9227469 / 2 ^ 24), Fin (9227469 / 2 ^ 25), Fin (5033165 / 2 ^ 27),
         Fin (5033165 / 2 ^ 28), Fin (7549747 / 2 ^ 29), Fin (14092861 / 2 ^ 33),
         Fin 0, Fin 0, Fin 0, Fin 0]"
    by (simp add: intensity_eval round_eval)
  ultimately show ?thesis
    using v n by (intro conjI)
qed

theorem intensity_mode_counterexample:
  "meanAbs [0.125, 1.125] * (0.3 - 0.5 * 0.2) = 0.125
   \<and> \<bar>0.125 :: real\<bar> \<le> meanAbs [0.125, 1.125] * (0.3 - 0.5 * 0.2)
   \<and> noiseThresholdOf_x [Fin 0.125, Fin 1.125] 0.5 = Fin (9007199254740991 / 2 ^ 56)
   \<and> processFloat32Array_x [Fin 0.125, Fin 1.125] 0.5 ! 0 = Fin (5033165 / 2 ^ 27)
   \<and> processFloat32Array_x [Fin 0.125, Fin 1.125] 0.5 ! 0
       \<noteq> Fin (0.125 * (1 - (0.8 + 0.5 * 0.19)))
   \<and> processFloat32Array_x [Fin 0.125, Fin 1.125] 0.5 ! 0
       \<noteq> binary32 (0.125 * (1 - (0.8 + 0.5 * 0.19)))"
proof -
  have a: "meanAbs [0.125, 1.125] * (0.3 - 0.5 * 0.2) = 0.125"
    by (simp add: meanAbs_def)
  have b: "\<bar>0.125 :: real\<bar> \<le> meanAbs [0.125, 1.125] * (0.3 - 0.5 * 0.2)"
    by (simp add: meanAbs_def)
  have c: "noiseThresholdOf_x [Fin 0.125, Fin 1.125] 0.5 = Fin (9007199254740991 / 2 ^ 56)"
    by (simp add: intensity_eval round_eval)
  have d: "processFloat32Array_x [Fin 0.125, Fin 1.125] 0.5
      = [Fin (5033165 / 2 ^ 27), Fin (5190451 / 2 ^ 22)]"
    by (simp add: intensity_eval round_eval)
  have d0: "processFloat32Array_x [Fin 0.125, Fin 1.125] 0.5 ! 0 = Fin (5033165 / 2 ^ 27)"
    unfolding d by simp
  have e: "Fin (5033165 / 2 ^ 27) \<noteq> Fin (0.125 * (1 - (0.8 + 0.5 * 0.19)))"
    by simp
  have f: "binary32 (0.125 * (1 - (0.8 + 0.5 * 0.19))) = Fin (14092861 / 2 ^ 30)"
    by (simp add: round_eval)
  have g: "Fin (5033165 / 2 ^ 27) \<noteq> Fin (14092861 / 2 ^ 30)"
    by simp
  show ?thesis
    unfolding d0 f by (intro conjI) (rule a b c refl e g)+
qed

text \<open>
  C4, as the code has it. Neither engine has a way to raise: for every buffer it returns
  a buffer of the same length. No sample is replaced by zero: in both modes a NaN input
  sample gives a NaN output sample at the same index. In the intensity mode a NaN
  sample also makes the average amplitude and both thresholds NaN, so that every sample
  of the buffer is multiplied by the factor 1 - (0.8 + intensity * 0.19) of the weakest
  signals. In the four-parameter mode with the high-pass filter on, the sample after a
  NaN sample meets the limiter as NaN: the output there is NaN unless the limiter
  replaces it.
\<close>

theorem engines_keep_nan:
  "length (processFloat32Array_x ys t) = length ys
   \<and> length (processAudioWithRNNoise_x p ys) = length ys
   \<and> (\<forall>i<length ys. ys ! i = NaN \<longrightarrow>
         processFloat32Array_x ys t ! i = NaN \<and> processAudioWithRNNoise_x p ys ! i = NaN)
   \<and> (NaN \<in> set ys \<longrightarrow>
         avgAmplitudeOf_x ys = NaN
       \<and> voiceThresholdOf_x ys t = NaN
       \<and> noiseThresholdOf_x ys t = NaN
       \<and> (\<forall>j<length ys.
             processFloat32Array_x ys t ! j
               = toFloat32
                   (xmul (ys ! j) (xsub (Fin 1) (xadd (lit 0.8) (xmul (lit t) (lit 0.19)))))))
   \<and> (\<forall>i. Suc i < length ys \<and> ys ! i = NaN \<and> xless (Fin 0) (lit (highPassStrength p)) \<longrightarrow>
         processAudioWithRNNoise_x p ys ! Suc i
           = toFloat32 (limiter_x p (xabs (ys ! Suc i)) NaN))"
proof (intro conjI allI impI)
  show "length (processFloat32Array_x ys t) = length ys"
    by (rule length_processFloat32Array_x)
  show "length (processAudioWithRNNoise_x p ys) = length ys"
    by (rule length_processAudioWithRNNoise_x)
next
  fix i assume "i < length ys" and "ys ! i = NaN"
  then show "processFloat32Array_x ys t ! i = NaN"
    by (simp add: processFloat32Array_x_nth reduceSample_x_NaN)
next
  fix i assume "i < length ys" and "ys ! i = NaN"
  then show "processAudioWithRNNoise_x p ys ! i = NaN"
    by (rule processAudioWithRNNoise_x_NaN)
next
  assume n: "NaN \<in> set ys"
  show a: "avgAmplitudeOf_x ys = NaN"
    using n by (rule avgAmplitudeOf_x_NaN)
  show v: "voiceThresholdOf_x ys t = NaN"
    by (simp add: voiceThresholdOf_x_def a)
  show w: "noiseThresholdOf_x ys t = NaN"
    by (simp add: noiseThresholdOf_x_def a)
  fix j assume "j < length ys"
  then show "processFloat32Array_x ys t ! j
      = toFloat32 (xmul (ys ! j) (xsub (Fin 1) (xadd (lit 0.8) (xmul (lit t) (lit 0.19)))))"
    by (simp add: processFloat32Array_x_nth v w reduceSample_x_NaN_thresholds)
next
  fix i
  assume h: "Suc i < length ys \<and> ys ! i = NaN \<and> xless (Fin 0) (lit (highPassStrength p))"
  then have "processSample_x p ys (Suc i) = toFloat32 (limiter_x p (xabs (ys ! Suc i)) NaN)"
    by (intro processSample_x_after_NaN) simp_all
  with h show "processAudioWithRNNoise_x p ys ! Suc i
      = toFloat32 (limiter_x p (xabs (ys ! Suc i)) NaN)"
    by (simp add: processAudioWithRNNoise_x_def)
qed

theorem engines_keep_nan_witness:
  "processFloat32Array_x [Fin 0.5, NaN, Fin 0.5] 0.5 ! 1 = NaN
   \<and> processAudioWithRNNoise_x Balanced [Fin 0.5, NaN, Fin 0.5] ! 1 = NaN
   \<and> noiseThresholdOf_x [Fin 0.5, NaN, Fin 0.5] 0.5 = NaN
   \<and> processFloat32Array_x [Fin 0.5, NaN, Fin 0.5] 0.5 ! 0
       = toFloat32 (xmul (Fin 0.5) (xsub (Fin 1) (xadd (lit 0.8) (xmul (lit 0.5) (lit 0.19)))))
   \<and> processAudioWithRNNoise_x Balanced [Fin 0.5, NaN, Fin 0.5] ! 2 = NaN"
proof -
  let ?ys = "[Fin 0.5, NaN, Fin 0.5]"
  note t = engines_keep_nan [of ?ys "0.5" Balanced]
  have l: "(1::nat) < length ?ys" and n: "?ys ! 1 = NaN"
    by simp_all
  have m: "NaN \<in> set ?ys"
    by simp
  have l0: "(0::nat) < length ?ys" and x0: "?ys ! 0 = Fin 0.5"
    by simp_all
  note a = t [THEN conjunct2, THEN conjunct2, THEN conjunct1, rule_format, OF l n]
  note b = t [THEN conjunct2, THEN conjunct2, THEN conjunct2, THEN conjunct1, THEN mp, OF m]
  note c = b [THEN conjunct2, THEN conjunct2, THEN conjunct1]
  note d = b [THEN conjunct2, THEN conjunct2, THEN conjunct2, rule_format, OF l0,
      unfolded x0]
  have hp: "xless (Fin 0) (lit (highPassStrength Balanced))"
    by (simp add: Balanced_def round_eval)
  have h: "Suc 1 < length ?ys \<and> ?ys ! 1 = NaN \<and> xless (Fin 0) (lit (highPassStrength Balanced))"
    using hp by simp
  have x2: "?ys ! Suc 1 = Fin 0.5"
    by simp
  have lim: "limiter_x Balanced (xabs (Fin 0.5)) NaN = NaN"
    by (simp add: limiter_x_def Balanced_def round_eval)
  have e': "processAudioWithRNNoise_x Balanced ?ys ! Suc 1 = NaN"
    using t [THEN conjunct2, THEN conjunct2, THEN conjunct2, THEN conjunct2, rule_format,
        OF h]
    unfolding x2 lim by simp
  have s2: "Suc 1 = (2::nat)"
    by simp
  have e: "processAudioWithRNNoise_x Balanced ?ys ! 2 = NaN"
    using e' unfolding s2 .
  show ?thesis
    by (intro conjI) (rule a [THEN conjunct1] a [THEN conjunct2] c d e)+
qed

theorem nonfinite_not_zeroed_counterexample:
  "processAudioWithRNNoise_x Balanced [Fin 0.5, NaN, Fin 0.5] = [Fin 0.5, NaN, NaN]
   \<and> processAudioWithRNNoise_x Balanced (map zeroNonFinite [Fin 0.5, NaN, Fin 0.5])
       = [Fin 0.5, Fin (- 5368709 / 2 ^ 29), Fin (2055209 / 2 ^ 22)]
   \<and> processAudioWithRNNoise_x Balanced [Fin 0.5, NaN, Fin 0.5]
       \<noteq> processAudioWithRNNoise_x Balanced (map zeroNonFinite [Fin 0.5, NaN, Fin 0.5])
   \<and> processFloat32Array_x [Fin 0.5, NaN] 0.5 = [Fin (14092861 / 2 ^ 28), NaN]
   \<and> processFloat32Array_x (map zeroNonFinite [Fin 0.5, NaN]) 0.5
       = [Fin (9227469 / 2 ^ 24), Fin 0]
   \<and> processFloat32Array_x [Fin 0.5, NaN] 0.5
       \<noteq> processFloat32Array_x (map zeroNonFinite [Fin 0.5, NaN]) 0.5"
proof -
  have u: "[0..<length [Fin 0.5, NaN, Fin 0.5]] = [0, 1, 2]"
    by (simp add: upt_rec)
  have a: "processAudioWithRNNoise_x Balanced [Fin 0.5, NaN, Fin 0.5] = [Fin 0.5, NaN, NaN]"
    unfolding processAudioWithRNNoise_x_def u
    by (simp add: explicit_eval Balanced_def round_eval)
  have z: "map zeroNonFinite [Fin 0.5, NaN, Fin 0.5] = [Fin 0.5, Fin 0, Fin 0.5]"
    by simp
  have u': "[0..<length [Fin 0.5, Fin 0, Fin 0.5]] = [0, 1, 2]"
    by (simp add: upt_rec)
  have b: "processAudioWithRNNoise_x Balanced (map zeroNonFinite [Fin 0.5, NaN, Fin 0.5])
      = [Fin 0.5, Fin (- 5368709 / 2 ^ 29), Fin (2055209 / 2 ^ 22)]"
    unfolding z processAudioWithRNNoise_x_def u'
    by (simp add: explicit_eval Balanced_def round_eval)
  have c: "processFloat32Array_x [Fin 0.5, NaN] 0.5 = [Fin (14092861 / 2 ^ 28), NaN]"
    by (simp add: intensity_eval round_eval)
  have z2: "map zeroNonFinite [Fin 0.5, NaN] = [Fin 0.5, Fin 0]"
    by simp
  have d: "processFloat32Array_x (map zeroNonFinite [Fin 0.5, NaN]) 0.5
      = [Fin (9227469 / 2 ^ 24), Fin 0]"
    unfolding z2 by (simp add: intensity_eval round_eval)
  have e: "processAudioWithRNNoise_x Balanced [Fin 0.5, NaN, Fin 0.5]
      \<noteq> processAudioWithRNNoise_x Balanced (map zeroNonFinite [Fin 0.5, NaN, Fin 0.5])"
    unfolding a b by simp
  have f: "processFloat32Array_x [Fin 0.5, NaN] 0.5
      \<noteq> processFloat32Array_x (map zeroNonFinite [Fin 0.5, NaN]) 0.5"
    unfolding c d by simp
  show ?thesis
    by (intro conjI) (rule a b c d e f)+
qed

end
